theory Spec2Isabelle
  imports Main
begin

section \<open>Python values\<close>

text \<open>
  The service handles the values that JSON decoding yields. Strings are Isabelle strings:
  a character stands for the code point of the same number (0 to 255). A float is
  represented by the text that Python's \<open>repr\<close> prints for it (\<open>30.5\<close>, \<open>1e+22\<close>,
  \<open>inf\<close>, \<open>nan\<close>), which identifies it. A dict is an association list in insertion order
  with distinct keys.
\<close>

datatype pyval =
    PNone
  | PBool bool
  | PInt int
  | PFloat string
  | PStr string
  | PList "pyval list"
  | PDict "(string \<times> pyval) list"

datatype py_error =
    ValueError | AttributeError | KeyError | TypeError
  | BadRequest | UnsupportedMediaType

text \<open>Truth value testing, as \<open>not x\<close> and \<open>if x\<close> use it.\<close>

fun truthy :: "pyval \<Rightarrow> bool" where
  "truthy PNone = False"
| "truthy (PBool b) = b"
| "truthy (PInt n) = (n \<noteq> 0)"
| "truthy (PFloat r) = (r \<noteq> ''0.0'' \<and> r \<noteq> ''-0.0'')"
| "truthy (PStr s) = (s \<noteq> [])"
| "truthy (PList xs) = (xs \<noteq> [])"
| "truthy (PDict kvs) = (kvs \<noteq> [])"

text \<open>
  \<open>d.get(k, default)\<close> and \<open>d[k]\<close> with a string \<open>k\<close>. A value that is not a dict has
  no \<open>get\<close> and takes no string as index.
\<close>

fun dict_get :: "pyval \<Rightarrow> string \<Rightarrow> pyval \<Rightarrow> py_error + pyval" where
  "dict_get (PDict kvs) k dflt = (case map_of kvs k of None \<Rightarrow> Inr dflt | Some v \<Rightarrow> Inr v)"
| "dict_get _ k dflt = Inl AttributeError"

fun dict_item :: "pyval \<Rightarrow> string \<Rightarrow> py_error + pyval" where
  "dict_item (PDict kvs) k = (case map_of kvs k of None \<Rightarrow> Inl KeyError | Some v \<Rightarrow> Inr v)"
| "dict_item _ k = Inl TypeError"

section \<open>The builtin \<open>int\<close> on a string\<close>

text \<open>
  \<open>int(s)\<close> for a string \<open>s\<close>, base 10, as CPython computes it: characters from 127 on
  are first mapped to ASCII (a Unicode space becomes a blank, anything else a question
  mark, where the text is cut); then blanks are skipped, one sign is read, then digits
  with single underscores between them, then blanks up to the end. Every failure is a
  \<open>ValueError\<close>. The parameter \<open>lim\<close> is \<open>sys.int_max_str_digits\<close> (4300 by default,
  0 for no limit): more than \<open>lim\<close> digits are a \<open>ValueError\<close> too.
\<close>

definition ascii_space :: "char \<Rightarrow> bool" where
  "ascii_space c = (of_char c \<in> {9, 10, 11, 12, 13, 32 :: nat})"

definition unicode_space :: "char \<Rightarrow> bool" where
  "unicode_space c =
     (of_char c \<in> {9, 10, 11, 12, 13, 28, 29, 30, 31, 32, 133, 160 :: nat})"

fun to_ascii :: "string \<Rightarrow> string" where
  "to_ascii [] = []"
| "to_ascii (c # cs) =
     (if (of_char c :: nat) < 127 then c # to_ascii cs
      else if unicode_space c then CHR '' '' # to_ascii cs
      else [CHR ''?''])"

definition digit_value :: "char \<Rightarrow> nat option" where
  "digit_value c =
     (let n = of_char c :: nat in if 48 \<le> n \<and> n \<le> 57 then Some (n - 48) else None)"

text \<open>
  The scan over digits and underscores: \<open>prev\<close> is the character before, \<open>ds\<close> the
  digits read so far. It stops at the first character that is neither; two underscores
  in a row or an underscore at the end are an error (\<open>None\<close>).
\<close>

fun scan_digits :: "string \<Rightarrow> char \<Rightarrow> nat list \<Rightarrow> (nat list \<times> string) option" where
  "scan_digits [] prev ds = (if prev = CHR ''_'' then None else Some (ds, []))"
| "scan_digits (c # cs) prev ds =
     (if c = CHR ''_'' then (if prev = CHR ''_'' then None else scan_digits cs c ds)
      else case digit_value c of
             Some d \<Rightarrow> scan_digits cs c (ds @ [d])
           | None \<Rightarrow> if prev = CHR ''_'' then None else Some (ds, c # cs))"

definition digits_value :: "nat list \<Rightarrow> int" where
  "digits_value ds = foldl (\<lambda>a d. 10 * a + int d) 0 ds"

definition too_many_digits :: "nat \<Rightarrow> nat \<Rightarrow> bool" where
  "too_many_digits lim k = (k > 640 \<and> lim > 0 \<and> k > lim)"

definition read_sign :: "string \<Rightarrow> int \<times> string" where
  "read_sign s =
     (case s of
        [] \<Rightarrow> (1, s)
      | c # cs \<Rightarrow> if c = CHR ''+'' then (1, cs) else if c = CHR ''-'' then (- 1, cs) else (1, s))"

definition PyLong_FromString :: "nat \<Rightarrow> string \<Rightarrow> py_error + int" where
  "PyLong_FromString lim s =
     (let (sign, str) = read_sign (dropWhile ascii_space s) in
      if str \<noteq> [] \<and> hd str = CHR ''_'' then Inl ValueError
      else case scan_digits str (CHR 0x00) [] of
             None \<Rightarrow> Inl ValueError
           | Some (ds, rest) \<Rightarrow>
               if too_many_digits lim (length ds) then Inl ValueError
               else if ds = [] then Inl ValueError
               else if dropWhile ascii_space rest \<noteq> [] then Inl ValueError
               else Inr (sign * digits_value ds))"

definition py_int :: "nat \<Rightarrow> string \<Rightarrow> py_error + int" where
  "py_int lim s =
     PyLong_FromString lim (if list_all (\<lambda>c. (of_char c :: nat) < 128) s then s else to_ascii s)"

section \<open>The builtin \<open>str\<close>\<close>

text \<open>
  \<open>str(x)\<close> is \<open>x\<close> itself for a string and \<open>repr(x)\<close> for the other values; an
  f-string formats these values with \<open>str\<close>. Printing an integer fails with \<open>ValueError\<close>
  when its text is longer than 640 characters and it has more digits than the limit
  \<open>lim\<close> (0 for no limit), and so does printing a list or a dict that holds such an
  integer.
\<close>

definition digit_char :: "nat \<Rightarrow> char" where
  "digit_char d = char_of (48 + d)"

fun dec_digits :: "nat \<Rightarrow> string" where
  "dec_digits n = (if n < 10 then [digit_char n] else dec_digits (n div 10) @ [digit_char (n mod 10)])"

declare dec_digits.simps [simp del]

definition str_int :: "nat \<Rightarrow> int \<Rightarrow> py_error + string" where
  "str_int lim n =
     (let ds = dec_digits (nat \<bar>n\<bar>);
          s = (if n < 0 then CHR ''-'' # ds else ds)
      in if length s > 640 \<and> lim > 0 \<and> length ds > lim then Inl ValueError else Inr s)"

definition hex_digit :: "nat \<Rightarrow> char" where
  "hex_digit d = (if d < 10 then char_of (48 + d) else char_of (87 + d))"

definition printable :: "char \<Rightarrow> bool" where
  "printable c =
     (let n = of_char c :: nat in
      32 \<le> n \<and> n \<noteq> 127 \<and> \<not> (128 \<le> n \<and> n \<le> 160) \<and> n \<noteq> 173)"

definition repr_char :: "char \<Rightarrow> char \<Rightarrow> string" where
  "repr_char quote c =
     (if c = quote \<or> c = CHR 0x5C then [CHR 0x5C, c]
      else if c = CHR 0x09 then [CHR 0x5C, CHR ''t'']
      else if c = CHR 0x0A then [CHR 0x5C, CHR ''n'']
      else if c = CHR 0x0D then [CHR 0x5C, CHR ''r'']
      else if printable c then [c]
      else [CHR 0x5C, CHR ''x'', hex_digit (of_char c div 16), hex_digit (of_char c mod 16)])"

definition repr_str :: "string \<Rightarrow> string" where
  "repr_str s =
     (let quote = (if CHR 0x27 \<in> set s \<and> CHR 0x22 \<notin> set s then CHR 0x22 else CHR 0x27)
      in [quote] @ concat (map (repr_char quote) s) @ [quote])"

fun join :: "string \<Rightarrow> string list \<Rightarrow> string" where
  "join sep [] = []"
| "join sep [x] = x"
| "join sep (x # y # ys) = x @ sep @ join sep (y # ys)"

text \<open>The texts of the items, one after the other; the first failure ends it.\<close>

fun all_or_first_error :: "(py_error + 'a) list \<Rightarrow> py_error + 'a list" where
  "all_or_first_error [] = Inr []"
| "all_or_first_error (Inl e # rs) = Inl e"
| "all_or_first_error (Inr x # rs) =
     (case all_or_first_error rs of Inl e \<Rightarrow> Inl e | Inr xs \<Rightarrow> Inr (x # xs))"

fun py_repr :: "nat \<Rightarrow> pyval \<Rightarrow> py_error + string" where
  "py_repr lim PNone = Inr ''None''"
| "py_repr lim (PBool b) = Inr (if b then ''True'' else ''False'')"
| "py_repr lim (PInt n) = str_int lim n"
| "py_repr lim (PFloat r) = Inr r"
| "py_repr lim (PStr s) = Inr (repr_str s)"
| "py_repr lim (PList xs) =
     (case all_or_first_error (map (py_repr lim) xs) of
        Inl e \<Rightarrow> Inl e
      | Inr ss \<Rightarrow> Inr (''['' @ join '', '' ss @ '']''))"
| "py_repr lim (PDict kvs) =
     (case all_or_first_error
             (map (\<lambda>kv. case py_repr lim (snd kv) of
                          Inl e \<Rightarrow> Inl e
                        | Inr s \<Rightarrow> Inr (repr_str (fst kv) @ '': '' @ s)) kvs) of
        Inl e \<Rightarrow> Inl e
      | Inr ss \<Rightarrow> Inr (''{'' @ join '', '' ss @ ''}''))"

fun py_str :: "nat \<Rightarrow> pyval \<Rightarrow> py_error + string" where
  "py_str lim (PStr s) = Inr s"
| "py_str lim v = py_repr lim v"

section \<open>The service\<close>

text \<open>
  \<open>WORKOUTS\<close>, the module's list, is the state: every function takes it and returns it,
  appended to where the code appends. A function's result is \<open>Inr\<close> of what it returns or
  \<open>Inl\<close> of the exception that leaves it. The first argument \<open>lim\<close> is the digit limit of
  the interpreter, which \<open>int\<close> and \<open>str\<close> read.

  In \<open>add_workout_logic\<close> the \<open>try\<close> encloses the call of \<open>int\<close>, the test of the
  duration, the append and the f-string of the message: a \<open>ValueError\<close> from \<open>int\<close> or
  from the f-string is caught, the second after the entry has been appended.
\<close>

definition APP_VERSION :: string where
  "APP_VERSION = ''1.0''"

definition add_workout_logic ::
  "nat \<Rightarrow> pyval \<Rightarrow> string \<Rightarrow> pyval list \<Rightarrow> (py_error + pyval) \<times> pyval list" where
  "add_workout_logic lim workout duration_str WORKOUTS =
     (if \<not> truthy workout \<or> duration_str = [] then
        (Inr (PDict [(''status'', PStr ''error''),
                     (''message'', PStr ''Please enter both workout and duration.'')]),
         WORKOUTS)
      else
        case py_int lim duration_str of
          Inl e \<Rightarrow>
            if e = ValueError then
              (Inr (PDict [(''status'', PStr ''error''),
                           (''message'', PStr ''Duration must be a number.'')]),
               WORKOUTS)
            else (Inl e, WORKOUTS)
        | Inr duration \<Rightarrow>
            if duration \<le> 0 then
              (Inr (PDict [(''status'', PStr ''error''),
                           (''message'', PStr ''Duration must be a positive number.'')]),
               WORKOUTS)
            else
              (let appended = WORKOUTS @ [PDict [(''workout'', workout), (''duration'', PInt duration)]]
               in case py_str lim workout of
                    Inr name \<Rightarrow>
                      (Inr (PDict [(''status'', PStr ''success''),
                                   (''message'',
                                    PStr ([CHR 0x27] @ name @ [CHR 0x27] @ '' added successfully!''))]),
                       appended)
                  | Inl e \<Rightarrow>
                      if e = ValueError then
                        (Inr (PDict [(''status'', PStr ''error''),
                                     (''message'', PStr ''Duration must be a number.'')]),
                         appended)
                      else (Inl e, appended)))"

subsection \<open>The views\<close>

text \<open>
  A view's answer is a status code and a body: text, or the value given to \<open>jsonify\<close>.
  A view that returns no code answers 200. \<open>add_workout\<close> takes what
  \<open>request.get_json()\<close> does for the request: it returns the decoded body, or raises
  (\<open>BadRequest\<close> for a body that is no JSON, \<open>UnsupportedMediaType\<close> for a content type
  that is not JSON), and what it raises leaves the view.
\<close>

datatype content = Text string | Json pyval | No_body

record response =
  code :: nat
  body :: content

definition home :: "pyval list \<Rightarrow> (py_error + response) \<times> pyval list" where
  "home WORKOUTS =
     (Inr \<lparr>code = 200,
           body = Text (''Welcome to ACEest Fitness & Gym! Application Version: '' @ APP_VERSION)\<rparr>,
      WORKOUTS)"

definition health_check :: "pyval list \<Rightarrow> (py_error + response) \<times> pyval list" where
  "health_check WORKOUTS =
     (Inr \<lparr>code = 200,
           body = Json (PDict [(''status'', PStr ''UP''), (''version'', PStr APP_VERSION)])\<rparr>,
      WORKOUTS)"

definition add_workout ::
  "nat \<Rightarrow> py_error + pyval \<Rightarrow> pyval list \<Rightarrow> (py_error + response) \<times> pyval list" where
  "add_workout lim get_json WORKOUTS =
     (case get_json of
        Inl e \<Rightarrow> (Inl e, WORKOUTS)
      | Inr data \<Rightarrow>
     (case dict_get data ''workout'' (PStr []) of
        Inl e \<Rightarrow> (Inl e, WORKOUTS)
      | Inr workout \<Rightarrow>
     (case dict_get data ''duration'' (PStr []) of
        Inl e \<Rightarrow> (Inl e, WORKOUTS)
      | Inr d \<Rightarrow>
     (case py_str lim d of
        Inl e \<Rightarrow> (Inl e, WORKOUTS)
      | Inr duration_str \<Rightarrow>
     (case add_workout_logic lim workout duration_str WORKOUTS of
        (Inl e, W) \<Rightarrow> (Inl e, W)
      | (Inr result, W) \<Rightarrow>
          (case dict_item result ''status'' of
             Inl e \<Rightarrow> (Inl e, W)
           | Inr st \<Rightarrow>
               if st = PStr ''error'' then (Inr \<lparr>code = 400, body = Json result\<rparr>, W)
               else (Inr \<lparr>code = 201, body = Json result\<rparr>, W)))))))"

definition get_workouts :: "pyval list \<Rightarrow> (py_error + response) \<times> pyval list" where
  "get_workouts WORKOUTS =
     (let summary = PDict [(''total_workouts'', PInt (int (length WORKOUTS))),
                           (''workouts'', PList WORKOUTS)]
      in (Inr \<lparr>code = 200, body = Json summary\<rparr>, WORKOUTS))"

subsection \<open>The routes\<close>

text \<open>
  \<open>url_map\<close> holds the rules the module registers with \<open>app.route\<close>, in the order of the
  file: path, methods, view.

  How a request finds its view is Flask's work, which is not part of the sources. It is
  modelled here from Flask's documentation, as far as the views of the module go: Flask
  registers \<open>HEAD\<close> with every rule that lists \<open>GET\<close>; a request runs the view of the
  first rule with its path and its method; for \<open>HEAD\<close> the view runs as for \<open>GET\<close> and
  the answer is sent without its body. Every other request is answered by Flask itself
  and runs no view of the module: \<open>OPTIONS\<close>, which Flask answers from the rules; paths
  under \<open>/static/\<close>, for which \<open>Flask(__name__)\<close> registers a rule and a view of its own;
  paths with doubled slashes, which are redirected; and the requests that are not found
  or whose method is not allowed. The model has one outcome for all of these,
  \<open>Flask_answers\<close>, and says nothing more about them. The path of a request is the path
  of its URL, decoded, without the query; it begins with a slash. An exception that
  leaves a view is the outcome of the request.
\<close>

datatype http_method = GET | HEAD | POST | PUT | DELETE | PATCH | OPTIONS | TRACE | CONNECT

datatype view = Home | Health_check | Add_workout | Get_workouts

datatype 'a routed = Found 'a | Flask_answers

definition url_map :: "(string \<times> http_method list \<times> view) list" where
  "url_map =
     [(''/'', [GET], Home),
      (''/health'', [GET], Health_check),
      (''/api/workouts'', [POST], Add_workout),
      (''/api/workouts'', [GET], Get_workouts)]"

definition runs_view :: "http_method list \<Rightarrow> http_method \<Rightarrow> bool" where
  "runs_view ms m = (m \<noteq> OPTIONS \<and> (m \<in> set ms \<or> (m = HEAD \<and> GET \<in> set ms)))"

definition match_request :: "http_method \<Rightarrow> string \<Rightarrow> view routed" where
  "match_request m p =
     (case find (\<lambda>(rp, ms, v). rp = p \<and> runs_view ms m) url_map of
        None \<Rightarrow> Flask_answers
      | Some (rp, ms, v) \<Rightarrow> Found v)"

record request =
  req_method :: http_method
  req_path :: string
  req_json :: "py_error + pyval"

fun call_view ::
  "nat \<Rightarrow> view \<Rightarrow> request \<Rightarrow> pyval list \<Rightarrow> (py_error + response) \<times> pyval list" where
  "call_view lim Home rq W = home W"
| "call_view lim Health_check rq W = health_check W"
| "call_view lim Add_workout rq W = add_workout lim (req_json rq) W"
| "call_view lim Get_workouts rq W = get_workouts W"

definition without_body :: "py_error + response \<Rightarrow> py_error + response" where
  "without_body r = (case r of Inl e \<Rightarrow> Inl e | Inr resp \<Rightarrow> Inr (resp\<lparr>body := No_body\<rparr>))"

definition serve ::
  "nat \<Rightarrow> request \<Rightarrow> pyval list \<Rightarrow> (py_error + response) routed \<times> pyval list" where
  "serve lim rq W =
     (case match_request (req_method rq) (req_path rq) of
        Flask_answers \<Rightarrow> (Flask_answers, W)
      | Found v \<Rightarrow>
          (case call_view lim v rq W of
             (r, W') \<Rightarrow> (Found (if req_method rq = HEAD then without_body r else r), W')))"

text \<open>The list after a sequence of requests, served one after the other.\<close>

fun run :: "nat \<Rightarrow> request list \<Rightarrow> pyval list \<Rightarrow> pyval list" where
  "run lim [] W = W"
| "run lim (rq # rqs) W = run lim rqs (snd (serve lim rq W))"


text \<open>What a call of \<open>add_workout_logic\<close> returned: the \<open>status\<close> and the \<open>message\<close> of its result.\<close>

definition result_status :: "(py_error + pyval) \<times> pyval list \<Rightarrow> py_error + pyval" where
  "result_status out = (case fst out of Inl e \<Rightarrow> Inl e | Inr result \<Rightarrow> dict_item result ''status'')"

definition result_message :: "(py_error + pyval) \<times> pyval list \<Rightarrow> py_error + pyval" where
  "result_message out = (case fst out of Inl e \<Rightarrow> Inl e | Inr result \<Rightarrow> dict_item result ''message'')"

section \<open>Predicates of the statements\<close>

text \<open>
  An entry of the list as \<open>add_workout_logic\<close> builds it: a dict with exactly the keys
  \<open>workout\<close> and \<open>duration\<close>, in this order, the workout a value that counts as true
  (for a string: not empty) and the duration an integer above zero.
\<close>

fun valid_entry :: "pyval \<Rightarrow> bool" where
  "valid_entry (PDict [(k1, workout), (k2, PInt duration)]) =
     (k1 = ''workout'' \<and> k2 = ''duration'' \<and> truthy workout \<and> 0 < duration)"
| "valid_entry _ = False"



section \<open>Facts about \<open>int\<close>, \<open>str\<close> and the outcomes of \<open>add_workout_logic\<close>\<close>

lemma py_int_raises_ValueError: "py_int lim s = Inl e \<Longrightarrow> e = ValueError"
  by (auto simp: py_int_def PyLong_FromString_def Let_def split: prod.splits option.splits if_splits)

lemma py_int_Nil: "py_int lim [] = Inl ValueError"
  by (simp add: py_int_def PyLong_FromString_def read_sign_def)

lemma py_int_30: "py_int lim ''30'' = Inr 30"
  by (simp add: py_int_def PyLong_FromString_def read_sign_def ascii_space_def digit_value_def
      digits_value_def too_many_digits_def)


lemma py_int_abc: "py_int lim ''abc'' = Inl ValueError"
  by (simp add: py_int_def PyLong_FromString_def read_sign_def ascii_space_def digit_value_def)

lemma py_int_cases:
  obtains (fail) "py_int lim s = Inl ValueError" | (ok) d where "py_int lim s = Inr d"
  by (cases "py_int lim s") (auto dest: py_int_raises_ValueError)

lemma all_or_first_error_Inl: "all_or_first_error rs = Inl e \<Longrightarrow> Inl e \<in> set rs"
  by (induction rs rule: all_or_first_error.induct) (auto split: sum.splits)

lemma str_int_raises_ValueError: "str_int lim n = Inl e \<Longrightarrow> e = ValueError"
  by (auto simp: str_int_def Let_def split: if_splits)

lemma py_repr_raises_ValueError: "py_repr lim v = Inl e \<Longrightarrow> e = ValueError"
proof (induction v)
  case (PInt n)
  then show ?case by (simp add: str_int_raises_ValueError)
next
  case (PList xs)
  from PList.prems have "all_or_first_error (map (py_repr lim) xs) = Inl e"
    by (simp split: sum.splits)
  then obtain x where "x \<in> set xs" "py_repr lim x = Inl e"
    by (auto dest!: all_or_first_error_Inl)
  then show ?case by (rule PList.IH)
next
  case (PDict kvs)
  from PDict.prems have
    "all_or_first_error
       (map (\<lambda>kv. case py_repr lim (snd kv) of
                    Inl e \<Rightarrow> Inl e
                  | Inr s \<Rightarrow> Inr (repr_str (fst kv) @ '': '' @ s)) kvs) = Inl e"
    by (simp split: sum.splits)
  then obtain kv where kv: "kv \<in> set kvs" "py_repr lim (snd kv) = Inl e"
    by (auto dest!: all_or_first_error_Inl split: sum.splits)
  have "snd kv \<in> Basic_BNFs.snds kv" by (cases kv) simp
  with kv show ?case by (blast intro: PDict.IH)
qed simp_all

lemma py_str_raises_ValueError: "py_str lim v = Inl e \<Longrightarrow> e = ValueError"
  by (cases v; simp only: py_str.simps; (drule py_repr_raises_ValueError)?; simp)

lemma py_str_cases:
  obtains (fail) "py_str lim v = Inl ValueError" | (ok) s where "py_str lim v = Inr s"
  by (cases "py_str lim v") (auto dest: py_str_raises_ValueError)



subsection \<open>The outcomes of \<open>add_workout_logic\<close>\<close>

lemma logic_missing:
  "\<not> truthy workout \<or> ds = [] \<Longrightarrow>
   add_workout_logic lim workout ds W =
     (Inr (PDict [(''status'', PStr ''error''),
                  (''message'', PStr ''Please enter both workout and duration.'')]), W)"
  by (simp add: add_workout_logic_def)

lemma logic_not_number:
  "truthy workout \<Longrightarrow> ds \<noteq> [] \<Longrightarrow> py_int lim ds = Inl e \<Longrightarrow>
   add_workout_logic lim workout ds W =
     (Inr (PDict [(''status'', PStr ''error''),
                  (''message'', PStr ''Duration must be a number.'')]), W)"
  by (frule py_int_raises_ValueError) (simp add: add_workout_logic_def)

lemma logic_not_positive:
  "truthy workout \<Longrightarrow> ds \<noteq> [] \<Longrightarrow> py_int lim ds = Inr d \<Longrightarrow> d \<le> 0 \<Longrightarrow>
   add_workout_logic lim workout ds W =
     (Inr (PDict [(''status'', PStr ''error''),
                  (''message'', PStr ''Duration must be a positive number.'')]), W)"
  by (simp add: add_workout_logic_def)

lemma logic_success:
  "truthy workout \<Longrightarrow> py_int lim ds = Inr d \<Longrightarrow> 0 < d \<Longrightarrow> py_str lim workout = Inr name \<Longrightarrow>
   add_workout_logic lim workout ds W =
     (Inr (PDict [(''status'', PStr ''success''),
                  (''message'',
                   PStr ([CHR 0x27] @ name @ [CHR 0x27] @ '' added successfully!''))]),
      W @ [PDict [(''workout'', workout), (''duration'', PInt d)]])"
  using py_int_Nil [of lim] by (auto simp: add_workout_logic_def)

lemma logic_format_fails:
  assumes "truthy workout" and "py_int lim ds = Inr d" and "0 < d" and "py_str lim workout = Inl e"
  shows "add_workout_logic lim workout ds W =
     (Inr (PDict [(''status'', PStr ''error''),
                  (''message'', PStr ''Duration must be a number.'')]),
      W @ [PDict [(''workout'', workout), (''duration'', PInt d)]])"
proof -
  from assms(4) have "e = ValueError" by (rule py_str_raises_ValueError)
  with assms py_int_Nil [of lim] show ?thesis by (auto simp: add_workout_logic_def)
qed

lemma logic_outcomes:
  obtains
    (missing) "\<not> truthy workout \<or> ds = []"
  | (not_number) "truthy workout" "ds \<noteq> []" "py_int lim ds = Inl ValueError"
  | (not_positive) d where "truthy workout" "ds \<noteq> []" "py_int lim ds = Inr d" "d \<le> 0"
  | (success) d name where
      "truthy workout" "ds \<noteq> []" "py_int lim ds = Inr d" "0 < d" "py_str lim workout = Inr name"
  | (format_fails) d where
      "truthy workout" "ds \<noteq> []" "py_int lim ds = Inr d" "0 < d" "py_str lim workout = Inl ValueError"
  by (cases lim ds rule: py_int_cases; cases lim workout rule: py_str_cases) force+

lemmas logic_simps =
  result_status_def result_message_def py_int_Nil
  logic_missing logic_not_number logic_not_positive logic_success logic_format_fails

lemma status_success_iff:
  "result_status (add_workout_logic lim workout ds W) = Inr (PStr ''success'') \<longleftrightarrow>
   truthy workout \<and> (\<exists>d. py_int lim ds = Inr d \<and> 0 < d) \<and> (\<exists>name. py_str lim workout = Inr name)"
  by (rule logic_outcomes [where workout = workout and ds = ds and lim = lim])
     (auto simp: logic_simps)

lemma add_workout_logic_returns: "\<exists>result. fst (add_workout_logic lim workout ds W) = Inr result"
  by (rule logic_outcomes [where workout = workout and ds = ds and lim = lim])
     (auto simp: logic_simps)

lemma logic_state:
  "snd (add_workout_logic lim workout ds W) = W \<or>
   (\<exists>d. truthy workout \<and> 0 < d \<and> py_int lim ds = Inr d \<and>
        snd (add_workout_logic lim workout ds W) =
          W @ [PDict [(''workout'', workout), (''duration'', PInt d)]])"
  by (rule logic_outcomes [where workout = workout and ds = ds and lim = lim])
     (auto simp: logic_simps)

lemma error_keeps_list:
  assumes "py_str lim workout = Inr name"
    and "result_status (add_workout_logic lim workout ds W) = Inr (PStr ''error'')"
  shows "snd (add_workout_logic lim workout ds W) = W"
  by (rule logic_outcomes [where workout = workout and ds = ds and lim = lim])
     (use assms in \<open>auto simp: logic_simps\<close>)

subsection \<open>The views and the list\<close>

lemma add_workout_raises: "add_workout lim (Inl e) W = (Inl e, W)"
  by (simp add: add_workout_def)

lemma add_workout_not_dict:
  "(\<And>kvs. data \<noteq> PDict kvs) \<Longrightarrow> add_workout lim (Inr data) W = (Inl AttributeError, W)"
  by (cases data) (auto simp: add_workout_def)

lemma match_request_iff:
  "match_request m p = Found v \<longleftrightarrow>
     (m, p, v) \<in> {(GET, ''/'', Home), (HEAD, ''/'', Home),
                  (GET, ''/health'', Health_check), (HEAD, ''/health'', Health_check),
                  (POST, ''/api/workouts'', Add_workout),
                  (GET, ''/api/workouts'', Get_workouts), (HEAD, ''/api/workouts'', Get_workouts)}"
  by (auto simp: match_request_def url_map_def runs_view_def split: if_splits)

lemma add_workout_dict:
  "add_workout lim (Inr (PDict kvs)) W =
     (let workout = (case map_of kvs ''workout'' of None \<Rightarrow> PStr [] | Some v \<Rightarrow> v);
          d = (case map_of kvs ''duration'' of None \<Rightarrow> PStr [] | Some v \<Rightarrow> v)
      in case py_str lim d of
           Inl e \<Rightarrow> (Inl e, W)
         | Inr duration_str \<Rightarrow>
             (let out = add_workout_logic lim workout duration_str W
              in (case fst out of
                    Inl e \<Rightarrow> Inl e
                  | Inr result \<Rightarrow>
                      Inr \<lparr>code = (if result_status out = Inr (PStr ''error'') then 400 else 201),
                           body = Json result\<rparr>,
                  snd out)))"
proof -
  let ?workout = "case map_of kvs ''workout'' of None \<Rightarrow> PStr [] | Some v \<Rightarrow> v"
  let ?d = "case map_of kvs ''duration'' of None \<Rightarrow> PStr [] | Some v \<Rightarrow> v"
  have g: "dict_get (PDict kvs) ''workout'' (PStr []) = Inr ?workout"
    "dict_get (PDict kvs) ''duration'' (PStr []) = Inr ?d"
    by (simp_all split: option.splits)
  show ?thesis
  proof (cases "py_str lim ?d")
    case (Inl e)
    show ?thesis unfolding add_workout_def sum.case g Let_def Inl by simp
  next
    case (Inr duration_str)
    show ?thesis
      unfolding add_workout_def sum.case g Let_def Inr
      by (rule logic_outcomes [where workout = ?workout and ds = duration_str and lim = lim])
         (simp_all add: logic_simps)
  qed
qed

lemma add_workout_state:
  "snd (add_workout lim g W) = W \<or>
   (\<exists>workout d. truthy workout \<and> 0 < d \<and>
      snd (add_workout lim g W) = W @ [PDict [(''workout'', workout), (''duration'', PInt d)]])"
proof (cases g)
  case (Inl e)
  then show ?thesis by (simp add: add_workout_raises)
next
  case (Inr data)
  show ?thesis
  proof (cases "\<exists>kvs. data = PDict kvs")
    case True
    then obtain kvs where data: "data = PDict kvs" ..
    let ?workout = "case map_of kvs ''workout'' of None \<Rightarrow> PStr [] | Some v \<Rightarrow> v"
    let ?d = "case map_of kvs ''duration'' of None \<Rightarrow> PStr [] | Some v \<Rightarrow> v"
    show ?thesis
    proof (cases "py_str lim ?d")
      case (Inl e)
      then show ?thesis by (simp add: Inr data add_workout_dict)
    next
      case ds: (Inr duration_str)
      from logic_state [of lim ?workout duration_str W] show ?thesis
        by (auto simp: Inr data add_workout_dict ds Let_def)
    qed
  next
    case False
    then show ?thesis by (simp add: Inr add_workout_not_dict)
  qed
qed

lemma serve_state:
  "snd (serve lim rq W) = W \<or>
   (\<exists>workout d. truthy workout \<and> 0 < d \<and>
      snd (serve lim rq W) = W @ [PDict [(''workout'', workout), (''duration'', PInt d)]])"
proof (cases "match_request (req_method rq) (req_path rq)")
  case (Found v)
  show ?thesis
  proof (cases v)
    case Add_workout
    with Found add_workout_state [of lim "req_json rq" W] show ?thesis
      by (auto simp: serve_def split: prod.splits)
  qed (use Found in \<open>simp_all add: serve_def home_def health_check_def get_workouts_def\<close>)
qed (simp_all add: serve_def)

lemma serve_valid: "list_all valid_entry W \<Longrightarrow> list_all valid_entry (snd (serve lim rq W))"
  using serve_state [of lim rq W] by auto

lemma run_valid: "list_all valid_entry W \<Longrightarrow> list_all valid_entry (run lim rqs W)"
  by (induction rqs arbitrary: W) (simp_all add: serve_valid)



lemma logic_string_30:
  "w \<noteq> [] \<Longrightarrow>
   add_workout_logic lim (PStr w) ''30'' W =
     (Inr (PDict [(''status'', PStr ''success''),
                  (''message'', PStr ([CHR 0x27] @ w @ [CHR 0x27] @ '' added successfully!''))]),
      W @ [PDict [(''workout'', PStr w), (''duration'', PInt 30)]])"
  by (rule logic_success [OF _ py_int_30]) simp_all


subsection \<open>Printing an integer and reading it back\<close>













subsection \<open>An integer above the digit limit\<close>




section \<open>Acceptance\<close>

text \<open>
  Claim C1 says that \<open>add_workout_logic\<close> accepts a request exactly when the duration
  string parses as an integer that is strictly positive, whatever the workout string.
  The first check of the function rejects an empty workout string: with the workout
  \<open>''''\<close> and the duration \<open>''30''\<close>, which parses as 30, the call returns the status
  \<open>error\<close> and leaves the list as it was.
\<close>

theorem add_workout_logic_accepts_counterexample:
  "py_int 4300 ''30'' = Inr 30 \<and> (0::int) < 30 \<and>
   result_status (add_workout_logic 4300 (PStr []) ''30'' []) = Inr (PStr ''error'') \<and>
   snd (add_workout_logic 4300 (PStr []) ''30'' []) = []"
  by (simp add: py_int_30 logic_missing result_status_def)

text \<open>
  Claim C1, amended: for every workout string \<open>w\<close> and every duration string \<open>ds\<close>,
  \<open>add_workout_logic\<close> returns the status \<open>success\<close> and appends the entry with the
  duration \<open>d\<close> exactly when \<open>w\<close> is not empty and \<open>ds\<close> parses as the integer \<open>d\<close> with
  \<open>0 < d\<close>; in every other case it returns the status \<open>error\<close> and the list is unchanged.
\<close>

theorem add_workout_logic_accepts_iff:
  "((result_status (add_workout_logic lim (PStr w) ds W) = Inr (PStr ''success'') \<and>
     snd (add_workout_logic lim (PStr w) ds W) =
       W @ [PDict [(''workout'', PStr w), (''duration'', PInt d)]])
    \<longleftrightarrow> (w \<noteq> [] \<and> py_int lim ds = Inr d \<and> 0 < d)) \<and>
   ((result_status (add_workout_logic lim (PStr w) ds W) = Inr (PStr ''error'') \<and>
     snd (add_workout_logic lim (PStr w) ds W) = W)
    \<longleftrightarrow> \<not> (w \<noteq> [] \<and> (\<exists>n. py_int lim ds = Inr n \<and> 0 < n)))"
  by (rule logic_outcomes [where workout = "PStr w" and ds = ds and lim = lim])
     (auto simp: logic_simps)

theorem add_workout_logic_accepts_iff_witness:
  "result_status (add_workout_logic 4300 (PStr ''Run'') ''30'' []) = Inr (PStr ''success'') \<and>
   snd (add_workout_logic 4300 (PStr ''Run'') ''30'' []) =
     [PDict [(''workout'', PStr ''Run''), (''duration'', PInt 30)]]"
  using add_workout_logic_accepts_iff
    [where lim = 4300 and w = "''Run''" and ds = "''30''" and W = "[]" and d = 30]
  by (simp add: py_int_30)

section \<open>What a successful call stores\<close>

text \<open>
  Claim C2: on every call that returns the status \<open>success\<close>, \<open>add_workout_logic\<close>
  appends exactly one entry to the end of the list, the dict with \<open>workout\<close> the given
  value and \<open>duration\<close> the parsed integer; the entries stored before are all there, in
  the same order, in front of it.
\<close>

theorem add_workout_logic_appends_one:
  assumes "result_status (add_workout_logic lim workout ds W) = Inr (PStr ''success'')"
  shows "\<exists>d. py_int lim ds = Inr d \<and>
             snd (add_workout_logic lim workout ds W) =
               W @ [PDict [(''workout'', workout), (''duration'', PInt d)]]"
  using assms unfolding status_success_iff by (auto simp: logic_success)

theorem add_workout_logic_appends_one_witness:
  "result_status
     (add_workout_logic 4300 (PStr ''Run'') ''30''
        [PDict [(''workout'', PStr ''Row''), (''duration'', PInt 5)]])
     = Inr (PStr ''success'') \<and>
   snd (add_workout_logic 4300 (PStr ''Run'') ''30''
          [PDict [(''workout'', PStr ''Row''), (''duration'', PInt 5)]])
     = [PDict [(''workout'', PStr ''Row''), (''duration'', PInt 5)],
        PDict [(''workout'', PStr ''Run''), (''duration'', PInt 30)]]"
proof -
  let ?W = "[PDict [(''workout'', PStr ''Row''), (''duration'', PInt 5)]]"
  have h: "result_status (add_workout_logic 4300 (PStr ''Run'') ''30'' ?W) = Inr (PStr ''success'')"
    by (simp add: logic_string_30 result_status_def)
  from add_workout_logic_appends_one [OF h] h show ?thesis
    by (simp add: py_int_30)
qed

section \<open>The one handler\<close>

text \<open>
  Claim C3: for every non-empty workout string and non-empty duration string,
  \<open>add_workout_logic\<close> returns the error \<open>Duration must be a number.\<close> exactly when
  parsing the duration string as an integer raises \<open>ValueError\<close>. The handler catches
  that exception, so the call always returns a result, and nothing else is caught: the
  \<open>AttributeError\<close> of \<open>data.get\<close> on a decoded body that is not a dict leaves
  \<open>add_workout\<close>.
\<close>

theorem number_error_iff_ValueError:
  assumes "w \<noteq> []" and "ds \<noteq> []"
  shows "(result_message (add_workout_logic lim (PStr w) ds W)
            = Inr (PStr ''Duration must be a number.'')
          \<longleftrightarrow> py_int lim ds = Inl ValueError) \<and>
         (\<exists>result. fst (add_workout_logic lim (PStr w) ds W) = Inr result) \<and>
         ((\<forall>kvs. data \<noteq> PDict kvs) \<longrightarrow>
            add_workout lim (Inr data) W = (Inl AttributeError, W))"
proof (intro conjI)
  show "result_message (add_workout_logic lim (PStr w) ds W)
            = Inr (PStr ''Duration must be a number.'')
          \<longleftrightarrow> py_int lim ds = Inl ValueError"
    by (rule logic_outcomes [where workout = "PStr w" and ds = ds and lim = lim])
       (use assms in \<open>auto simp: logic_simps\<close>)
  show "\<exists>result. fst (add_workout_logic lim (PStr w) ds W) = Inr result"
    by (rule add_workout_logic_returns)
  show "(\<forall>kvs. data \<noteq> PDict kvs) \<longrightarrow>
          add_workout lim (Inr data) W = (Inl AttributeError, W)"
    by (simp add: add_workout_not_dict)
qed

theorem number_error_iff_ValueError_witness:
  "''Run'' \<noteq> [] \<and> ''abc'' \<noteq> [] \<and>
   result_message (add_workout_logic 4300 (PStr ''Run'') ''abc'' [])
     = Inr (PStr ''Duration must be a number.'') \<and>
   py_int 4300 ''abc'' = Inl ValueError \<and>
   add_workout 4300 (Inr (PList [])) [] = (Inl AttributeError, [])"
  using number_error_iff_ValueError
    [where w = "''Run''" and ds = "''abc''" and lim = 4300 and W = "[]" and data = "PList []"]
  by (simp add: py_int_abc)

section \<open>Listing the workouts\<close>

text \<open>
  Claim C4: for every state of the list, \<open>GET /api/workouts\<close> answers with a summary
  whose \<open>total_workouts\<close> is the length of the list and whose \<open>workouts\<close> is the whole
  list, every entry in the order of the list (which is the order of insertion, since
  entries are only appended), and the list after the request is the list before it.
\<close>

theorem get_workouts_returns_all:
  "serve lim \<lparr>req_method = GET, req_path = ''/api/workouts'', req_json = data\<rparr> W =
     (Found (Inr \<lparr>code = 200,
                  body = Json (PDict [(''total_workouts'', PInt (int (length W))),
                                      (''workouts'', PList W)])\<rparr>), W)"
  by (simp add: serve_def match_request_def url_map_def runs_view_def get_workouts_def)

theorem get_workouts_returns_all_witness:
  "serve 4300 \<lparr>req_method = GET, req_path = ''/api/workouts'', req_json = Inr PNone\<rparr>
     [PDict [(''workout'', PStr ''Row''), (''duration'', PInt 5)],
      PDict [(''workout'', PStr ''Run''), (''duration'', PInt 30)]] =
     (Found (Inr \<lparr>code = 200,
                  body = Json (PDict [(''total_workouts'', PInt 2),
                                      (''workouts'',
                                       PList [PDict [(''workout'', PStr ''Row''), (''duration'', PInt 5)],
                                              PDict [(''workout'', PStr ''Run''), (''duration'', PInt 30)]])])\<rparr>),
      [PDict [(''workout'', PStr ''Row''), (''duration'', PInt 5)],
       PDict [(''workout'', PStr ''Run''), (''duration'', PInt 30)]])"
  using get_workouts_returns_all
    [where lim = 4300 and data = "Inr PNone"
       and W = "[PDict [(''workout'', PStr ''Row''), (''duration'', PInt 5)],
                 PDict [(''workout'', PStr ''Run''), (''duration'', PInt 30)]]"]
  by simp

section \<open>The list only grows\<close>



section \<open>The liveness probe\<close>

text \<open>
  Claim C6: for every state of the list, \<open>GET /health\<close> answers 200 with the status
  \<open>UP\<close> and the version \<open>1.0\<close>; the answer is the same whatever the list holds, and the
  list after the request is the list before it.
\<close>

theorem health_check_always_up:
  "serve lim \<lparr>req_method = GET, req_path = ''/health'', req_json = data\<rparr> W =
     (Found (Inr \<lparr>code = 200,
                  body = Json (PDict [(''status'', PStr ''UP''), (''version'', PStr ''1.0'')])\<rparr>), W)"
  by (simp add: serve_def match_request_def url_map_def runs_view_def health_check_def
      APP_VERSION_def)

theorem health_check_always_up_witness:
  "serve 4300 \<lparr>req_method = GET, req_path = ''/health'', req_json = Inr PNone\<rparr>
     [PDict [(''workout'', PStr ''Row''), (''duration'', PInt 5)]] =
     (Found (Inr \<lparr>code = 200,
                  body = Json (PDict [(''status'', PStr ''UP''), (''version'', PStr ''1.0'')])\<rparr>),
      [PDict [(''workout'', PStr ''Row''), (''duration'', PInt 5)]])"
  using health_check_always_up
    [where lim = 4300 and data = "Inr PNone"
       and W = "[PDict [(''workout'', PStr ''Row''), (''duration'', PInt 5)]]"]
  by simp

section \<open>The routes\<close>

text \<open>
  Claim C7 says that the interface has exactly four operations, \<open>GET /\<close>,
  \<open>GET /health\<close>, \<open>POST /api/workouts\<close> and \<open>GET /api/workouts\<close>, and exposes no other.
  Flask registers \<open>HEAD\<close> with every rule that lists \<open>GET\<close>: the request \<open>HEAD /health\<close>
  is none of the four, and it runs the view \<open>health_check\<close> and is answered 200,
  without a body.
\<close>

theorem routes_head_counterexample:
  "(HEAD, ''/health'') \<noteq> (GET, ''/health'') \<and>
   match_request HEAD ''/health'' = Found Health_check \<and>
   serve 4300 \<lparr>req_method = HEAD, req_path = ''/health'', req_json = Inr PNone\<rparr> [] =
     (Found (Inr \<lparr>code = 200, body = No_body\<rparr>), [])"
  by (simp add: serve_def match_request_def url_map_def runs_view_def health_check_def
      without_body_def)

text \<open>
  Claim C7, amended: the module registers exactly four rules, on the three paths \<open>/\<close>,
  \<open>/health\<close> and \<open>/api/workouts\<close>. A request runs a view of the module exactly when it is
  \<open>GET /\<close> (the welcome message), \<open>GET /health\<close>, \<open>POST /api/workouts\<close> or
  \<open>GET /api/workouts\<close>, or \<open>HEAD\<close> on one of the three paths, which runs the view of
  \<open>GET\<close> and is answered with its status and no body. Every other request is answered
  by Flask itself, runs no view of the module and leaves the list as it was.
\<close>

theorem routes_views_reached:
  "fst ` set url_map = {''/'', ''/health'', ''/api/workouts''} \<and>
   card (fst ` set url_map) = 3 \<and>
   length url_map = 4 \<and>
   (match_request m p = Found v \<longleftrightarrow>
      (m, p, v) \<in> {(GET, ''/'', Home), (HEAD, ''/'', Home),
                   (GET, ''/health'', Health_check), (HEAD, ''/health'', Health_check),
                   (POST, ''/api/workouts'', Add_workout),
                   (GET, ''/api/workouts'', Get_workouts), (HEAD, ''/api/workouts'', Get_workouts)}) \<and>
   ((m, p) \<notin> {(GET, ''/''), (HEAD, ''/''), (GET, ''/health''), (HEAD, ''/health''),
               (POST, ''/api/workouts''), (GET, ''/api/workouts''), (HEAD, ''/api/workouts'')}
      \<longleftrightarrow> serve lim \<lparr>req_method = m, req_path = p, req_json = g\<rparr> W = (Flask_answers, W)) \<and>
   serve lim \<lparr>req_method = GET, req_path = ''/'', req_json = g\<rparr> W =
     (Found (Inr \<lparr>code = 200,
                  body = Text ''Welcome to ACEest Fitness & Gym! Application Version: 1.0''\<rparr>), W) \<and>
   (p \<in> {''/'', ''/health'', ''/api/workouts''} \<longrightarrow>
      serve lim \<lparr>req_method = HEAD, req_path = p, req_json = g\<rparr> W =
        (Found (Inr \<lparr>code = 200, body = No_body\<rparr>), W))"
proof (intro conjI)
  show "fst ` set url_map = {''/'', ''/health'', ''/api/workouts''}"
    by (auto simp: url_map_def)
  then show "card (fst ` set url_map) = 3"
    by simp
  show "length url_map = 4"
    by (simp add: url_map_def)
  show "match_request m p = Found v \<longleftrightarrow>
      (m, p, v) \<in> {(GET, ''/'', Home), (HEAD, ''/'', Home),
                   (GET, ''/health'', Health_check), (HEAD, ''/health'', Health_check),
                   (POST, ''/api/workouts'', Add_workout),
                   (GET, ''/api/workouts'', Get_workouts), (HEAD, ''/api/workouts'', Get_workouts)}"
    by (rule match_request_iff)
  show "(m, p) \<notin> {(GET, ''/''), (HEAD, ''/''), (GET, ''/health''), (HEAD, ''/health''),
               (POST, ''/api/workouts''), (GET, ''/api/workouts''), (HEAD, ''/api/workouts'')}
      \<longleftrightarrow> serve lim \<lparr>req_method = m, req_path = p, req_json = g\<rparr> W = (Flask_answers, W)"
    using match_request_iff [of m p]
    by (cases "match_request m p") (auto simp: serve_def split: prod.splits)
  show "serve lim \<lparr>req_method = GET, req_path = ''/'', req_json = g\<rparr> W =
     (Found (Inr \<lparr>code = 200,
                  body = Text ''Welcome to ACEest Fitness & Gym! Application Version: 1.0''\<rparr>), W)"
    by (simp add: serve_def match_request_def url_map_def runs_view_def home_def APP_VERSION_def)
  show "p \<in> {''/'', ''/health'', ''/api/workouts''} \<longrightarrow>
      serve lim \<lparr>req_method = HEAD, req_path = p, req_json = g\<rparr> W =
        (Found (Inr \<lparr>code = 200, body = No_body\<rparr>), W)"
    by (auto simp: serve_def match_request_def url_map_def runs_view_def home_def
        health_check_def get_workouts_def without_body_def)
qed

theorem routes_views_reached_witness:
  "match_request POST ''/api/workouts'' = Found Add_workout \<and>
   match_request DELETE ''/api/workouts'' \<noteq> Found Add_workout \<and>
   serve 4300 \<lparr>req_method = DELETE, req_path = ''/api/workouts'', req_json = Inr PNone\<rparr> []
     = (Flask_answers, []) \<and>
   serve 4300 \<lparr>req_method = OPTIONS, req_path = ''/health'', req_json = Inr PNone\<rparr> []
     = (Flask_answers, []) \<and>
   ''/api/workouts'' \<in> {''/'', ''/health'', ''/api/workouts''} \<and>
   serve 4300 \<lparr>req_method = HEAD, req_path = ''/api/workouts'', req_json = Inr PNone\<rparr> []
     = (Found (Inr \<lparr>code = 200, body = No_body\<rparr>), [])"
  using routes_views_reached [where m = POST and p = "''/api/workouts''" and v = Add_workout]
    routes_views_reached [where m = DELETE and p = "''/api/workouts''" and v = Add_workout
      and lim = 4300 and g = "Inr PNone" and W = "[]"]
    routes_views_reached [where m = OPTIONS and p = "''/health''" and lim = 4300
      and g = "Inr PNone" and W = "[]"]
    routes_views_reached [where p = "''/api/workouts''" and lim = 4300
      and g = "Inr PNone" and W = "[]"]
  by simp

section \<open>An error after the append\<close>



section \<open>The invariant of the list\<close>

text \<open>
  Claim C9: every request to the service preserves the property that each entry of the
  list is a dict with exactly the two keys \<open>workout\<close>, a non-empty value, and \<open>duration\<close>,
  an integer above zero; so every list reached from the empty list has it.
\<close>

theorem store_invariant:
  "(list_all valid_entry W \<longrightarrow> list_all valid_entry (snd (serve lim rq W))) \<and>
   list_all valid_entry (run lim rqs [])"
  by (simp add: serve_valid run_valid)

theorem store_invariant_witness:
  "list_all valid_entry [PDict [(''workout'', PStr ''Row''), (''duration'', PInt 5)]] \<and>
   list_all valid_entry
     (snd (serve 4300
        \<lparr>req_method = POST, req_path = ''/api/workouts'',
         req_json = Inr (PDict [(''workout'', PStr ''Run''), (''duration'', PStr ''30'')])\<rparr>
        [PDict [(''workout'', PStr ''Row''), (''duration'', PInt 5)]])) \<and>
   snd (serve 4300
        \<lparr>req_method = POST, req_path = ''/api/workouts'',
         req_json = Inr (PDict [(''workout'', PStr ''Run''), (''duration'', PStr ''30'')])\<rparr>
        [PDict [(''workout'', PStr ''Row''), (''duration'', PInt 5)]])
     = [PDict [(''workout'', PStr ''Row''), (''duration'', PInt 5)],
        PDict [(''workout'', PStr ''Run''), (''duration'', PInt 30)]]"
proof -
  let ?W = "[PDict [(''workout'', PStr ''Row''), (''duration'', PInt 5)]]"
  let ?rq = "\<lparr>req_method = POST, req_path = ''/api/workouts'',
         req_json = Inr (PDict [(''workout'', PStr ''Run''), (''duration'', PStr ''30'')])\<rparr>"
  have h: "list_all valid_entry ?W" by simp
  have s: "snd (serve 4300 ?rq ?W) = ?W @ [PDict [(''workout'', PStr ''Run''), (''duration'', PInt 30)]]"
    by (simp add: serve_def match_request_def url_map_def runs_view_def add_workout_dict
        logic_string_30)
  from store_invariant [where W = ?W and lim = 4300 and rq = ?rq] h s
  show ?thesis by simp
qed

section \<open>The request body and the status code\<close>




end
